theory Spec2Isabelle
  imports Main
begin

section \<open>The CAN bus as seen by KvaserLib.py\<close>

text \<open>
  Python integers are unbounded, so every number of the source is an \<open>int\<close>;
  \<open>x & m\<close> is \<open>x AND m\<close> and \<open>x >> 8\<close> is \<open>drop_bit 8 x\<close> (both agree with
  Python on negative numbers as well).

  A \<open>Frame\<close> of canlib carries an identifier, the data bytes and the flags. The data
  of a frame is the list the source builds (\<open>sdo_data\<close>), one list element per byte.
\<close>

unbundle bit_operations_syntax

datatype msg_flag = canMSG_STD | canMSG_EXT

record frame =
  frame_id :: int
  frame_data :: "int list"
  frame_flags :: msg_flag

text \<open>
  One call of \<open>channel.read(timeout=1000)\<close> either returns a frame, raises
  \<open>canlib.CanNoMsg\<close> or raises another \<open>canlib.CanlibException\<close>.
\<close>

datatype rx_outcome = Msg frame | CanNoMsg | CanlibException

text \<open>
  What is printed. One constructor per \<open>print\<close> of the source, with the numbers
  the f-string formats:
  \<^item> \<open>Sent_read index subindex\<close>: "Sent SDO Read Access: Index .., Subindex ..";
  \<^item> \<open>Received_data data\<close>: "Received Data: ..";
  \<^item> \<open>Error_reading\<close>: "Error reading SDO response: ..";
  \<^item> \<open>Failed_send_read\<close>: "Failed to send SDO read: ..";
  \<^item> \<open>Timeout_waiting\<close>: "Timeout waiting for SDO response.";
  \<^item> \<open>Sent_write index subindex data\<close>: "Sent SDO Write Access: Index .., Subindex .., Data ..";
  \<^item> \<open>Failed_send_write\<close>: "Failed to send SDO write: ..";
  \<^item> \<open>Enable_not_possible\<close>: "Enable not possible since Drive in fault reaction active state!";
  \<^item> \<open>Disable_not_possible\<close>: "Disable not possible since Drive in fault reaction active state!";
  \<^item> \<open>Issuing_fault_reset\<close>: "Issuing fault reset command...";
  \<^item> \<open>Fault_not_cleared\<close>: "A pending fault could not be cleared!";
  \<^item> \<open>Issuing description\<close>: "Issuing {description}...";
  \<^item> \<open>Drive_enabled\<close>: "Drive enabled successfully.";
  \<^item> \<open>Wrong_status_word\<close>: "Wrong status word value!";
  \<^item> \<open>Drive_disabled\<close>: "Drive disabled successfully.";
  \<^item> \<open>Setting_mode mode\<close>: "Setting CiA402 mode of operation to {mode} (Profile Velocity)...";
  \<^item> \<open>Setting_speed speed\<close>: "Setting speed to {speed}...";
  \<^item> \<open>Moving_for s\<close>: "Moving for {s} seconds...";
  \<^item> \<open>Fetching_for s\<close>: "Fetching CAN messages for {s} seconds...";
  \<^item> \<open>Received_heartbeat n\<close>: "Received heartbeat from node {n}";
  \<^item> \<open>Error_fetching\<close>: "Error fetching message: ..";
  \<^item> \<open>Total_heartbeats n\<close>: "Total heartbeat messages received: {n}".
\<close>

datatype line =
    Sent_read int int
  | Received_data int
  | Error_reading
  | Failed_send_read
  | Timeout_waiting
  | Sent_write int int int
  | Failed_send_write
  | Enable_not_possible
  | Disable_not_possible
  | Issuing_fault_reset
  | Fault_not_cleared
  | Issuing string
  | Drive_enabled
  | Wrong_status_word
  | Drive_disabled
  | Setting_mode int
  | Setting_speed int
  | Moving_for int
  | Fetching_for int
  | Received_heartbeat int
  | Error_fetching
  | Total_heartbeats int

text \<open>
  The world outside the library, threaded through every function:
  \<^item> \<open>clock\<close>: what \<open>time.time()\<close> returns, counted in milliseconds, so that a
    deadline \<open>time.time() + timeout_ms / 1000\<close> is \<open>clock + timeout_ms\<close> and one
    \<open>time.time() + duration_seconds\<close> is \<open>clock + 1000 * duration_seconds\<close>;
  \<^item> \<open>rx\<close>: the outcomes of the coming calls of \<open>channel.read\<close>, each with the
    time the call takes; once the list is used up the bus is silent, and every
    further call waits its full timeout of 1000 ms and raises \<open>CanNoMsg\<close>;
  \<^item> \<open>tx\<close>: the frames handed to \<open>channel.write\<close>, oldest first;
  \<^item> \<open>tx_faults\<close>: whether the coming calls of \<open>channel.write\<close> raise a
    \<open>CanlibException\<close> (\<open>True\<close>: it raises); once used up, every call succeeds;
  \<^item> \<open>out\<close>: the lines printed, oldest first.
\<close>

record bus =
  clock :: int
  rx :: "(nat \<times> rx_outcome) list"
  tx :: "frame list"
  tx_faults :: "bool list"
  out :: "line list"

definition say :: "line \<Rightarrow> bus \<Rightarrow> bus" where
  "say l e = e\<lparr>out := out e @ [l]\<rparr>"

text \<open>\<open>time.sleep(seconds)\<close>.\<close>

definition sleep :: "int \<Rightarrow> bus \<Rightarrow> bus" where
  "sleep seconds e = e\<lparr>clock := clock e + 1000 * seconds\<rparr>"

text \<open>\<open>channel.write(frame)\<close>: \<open>False\<close> when it raises a \<open>CanlibException\<close>.\<close>

definition channel_write :: "frame \<Rightarrow> bus \<Rightarrow> bool \<times> bus" where
  "channel_write f e =
     (case tx_faults e of
        [] \<Rightarrow> (True, e\<lparr>tx := tx e @ [f]\<rparr>)
      | fault # faults \<Rightarrow> (\<not> fault, e\<lparr>tx := tx e @ [f], tx_faults := faults\<rparr>))"

text \<open>\<open>channel.read(timeout=1000)\<close>.\<close>

definition channel_read :: "bus \<Rightarrow> rx_outcome \<times> bus" where
  "channel_read e =
     (case rx e of
        [] \<Rightarrow> (CanNoMsg, e\<lparr>clock := clock e + 1000\<rparr>)
      | (took, res) # rest \<Rightarrow> (res, e\<lparr>clock := clock e + int took, rx := rest\<rparr>))"

text \<open>\<open>int.from_bytes(bs, byteorder='little')\<close>.\<close>

fun int_from_bytes_little :: "int list \<Rightarrow> int" where
  "int_from_bytes_little [] = 0"
| "int_from_bytes_little (b # bs) = b + 256 * int_from_bytes_little bs"

section \<open>SDO client\<close>

text \<open>
  The polling loop of \<open>sdo_read_access\<close> (lines 28 to 39). \<open>Some data\<close> is the
  \<open>return data\<close> inside the loop; \<open>None\<close> is leaving the loop, by the deadline or
  by the \<open>break\<close>.
\<close>

function sdo_poll :: "int \<Rightarrow> int \<Rightarrow> bus \<Rightarrow> int option \<times> bus" where
  "sdo_poll cob_id end_time e =
     (if clock e < end_time then
        (case channel_read e of
           (Msg response, e') \<Rightarrow>
             if frame_id response = cob_id - 0x80 then
               (let data = int_from_bytes_little (drop 4 (frame_data response))
                in (Some data, say (Received_data data) e'))
             else sdo_poll cob_id end_time e'
         | (CanNoMsg, e') \<Rightarrow> sdo_poll cob_id end_time e'
         | (CanlibException, e') \<Rightarrow> (None, say Error_reading e'))
      else (None, e))"
  by pat_completeness auto
termination
  by (relation "measures [\<lambda>(c, t, e). length (rx e), \<lambda>(c, t, e). nat (t - clock e)]")
     (auto simp: channel_read_def split: list.splits)

definition sdo_read_access :: "bus \<Rightarrow> int \<Rightarrow> int \<Rightarrow> int \<Rightarrow> int \<Rightarrow> int option \<times> bus" where
  "sdo_read_access e node_id index subindex timeout_ms =
     (let cob_id = 0x600 + node_id;
          sdo_command = 0x40;
          sdo_data = [sdo_command, index AND 0xFF, drop_bit 8 index AND 0xFF, subindex, 0, 0, 0, 0];
          frame = \<lparr>frame_id = cob_id, frame_data = sdo_data, frame_flags = canMSG_STD\<rparr>
      in case channel_write frame e of
           (False, e1) \<Rightarrow> (None, say Timeout_waiting (say Failed_send_read e1))
         | (True, e1) \<Rightarrow>
             (let e2 = say (Sent_read index subindex) e1;
                  end_time = clock e2 + timeout_ms
              in case sdo_poll cob_id end_time e2 of
                   (Some data, e3) \<Rightarrow> (Some data, e3)
                 | (None, e3) \<Rightarrow> (None, say Timeout_waiting e3)))"

definition sdo_write_access :: "bus \<Rightarrow> int \<Rightarrow> int \<Rightarrow> int \<Rightarrow> int \<Rightarrow> int \<Rightarrow> bus" where
  "sdo_write_access e node_id index subindex data timeout_ms =
     (let cob_id = 0x600 + node_id;
          sdo_command = 0x2B;
          sdo_data = [sdo_command, index AND 0xFF, drop_bit 8 index AND 0xFF, subindex,
                      data AND 0xFF, drop_bit 8 data AND 0xFF, 0, 0];
          frame = \<lparr>frame_id = cob_id, frame_data = sdo_data, frame_flags = canMSG_STD\<rparr>
      in case channel_write frame e of
           (True, e1) \<Rightarrow> say (Sent_write index subindex data) e1
         | (False, e1) \<Rightarrow> say Failed_send_write e1)"

section \<open>Drive state machine\<close>

text \<open>
  \<open>None & 0x4F\<close> raises a \<open>TypeError\<close>; nothing in the library catches it, so it
  ends the function that evaluates it and every caller. A function that can raise
  returns \<open>Inl\<close> of the exception, or \<open>Inr ()\<close> when it returns normally, beside
  the bus as it is at that moment.
\<close>

datatype py_error = TypeError

type_synonym outcome = "(py_error + unit) \<times> bus"

text \<open>Sequencing: what follows a statement runs only when the statement did not raise.\<close>

definition and_then :: "outcome \<Rightarrow> (bus \<Rightarrow> outcome) \<Rightarrow> outcome" where
  "and_then r k = (case r of (Inl err, e) \<Rightarrow> (Inl err, e) | (Inr u, e) \<Rightarrow> k e)"

definition sleep_time_after_transmission :: int where
  "sleep_time_after_transmission = 1"

definition commands :: "(int \<times> string) list" where
  "commands =
     [(0x00, ''disable voltage command''),
      (0x06, ''shutdown command''),
      (0x07, ''switch on command''),
      (0x0F, ''switch on and enable command'')]"

text \<open>The \<open>for command, description in commands\<close> loop of \<open>enable_drive\<close>.\<close>

fun issue_commands :: "bus \<Rightarrow> int \<Rightarrow> int \<Rightarrow> (int \<times> string) list \<Rightarrow> bus" where
  "issue_commands e node_id timeout_ms [] = e"
| "issue_commands e node_id timeout_ms ((command, description) # rest) =
     (let e1 = say (Issuing description) e;
          e2 = sdo_write_access e1 node_id 0x6040 0x00 command timeout_ms;
          e3 = sleep sleep_time_after_transmission e2;
          (read_data, e4) = sdo_read_access e3 node_id 0x6041 0x00 timeout_ms
      in issue_commands e4 node_id timeout_ms rest)"

definition enable_drive :: "bus \<Rightarrow> int \<Rightarrow> int \<Rightarrow> outcome" where
  "enable_drive e node_id timeout_ms =
     (case sdo_read_access e node_id 0x6041 0x00 timeout_ms of (read_data, e1) \<Rightarrow>
        and_then
          (case read_data of
             None \<Rightarrow> (Inr (), e1)
           | Some status \<Rightarrow>
               if status AND 0x0000004F = 0x0000000F then
                 (Inr (), say Enable_not_possible e1)
               else if status AND 0x0000004F = 0x00000008 then
                 (let e2 = say Issuing_fault_reset e1;
                      e3 = sdo_write_access e2 node_id 0x6040 0x00 0x80 timeout_ms;
                      e4 = sleep sleep_time_after_transmission e3
                  in case sdo_read_access e4 node_id 0x6041 0x00 timeout_ms of
                       (None, e5) \<Rightarrow> (Inl TypeError, e5)
                     | (Some status', e5) \<Rightarrow>
                         if status' AND 0x0000004F \<noteq> 0x00000040
                         then (Inr (), say Fault_not_cleared e5)
                         else (Inr (), e5))
               else (Inr (), e1))
          (\<lambda>e6. (Inr (), say Drive_enabled (issue_commands e6 node_id timeout_ms commands))))"

definition disable_drive :: "bus \<Rightarrow> int \<Rightarrow> int \<Rightarrow> outcome" where
  "disable_drive e node_id timeout_ms =
     (case sdo_read_access e node_id 0x6041 0x00 timeout_ms of (read_data, e1) \<Rightarrow>
        and_then
          (case read_data of
             None \<Rightarrow> (Inr (), e1)
           | Some status \<Rightarrow>
               if status AND 0x0000004F = 0x0000000F then
                 (Inr (), say Disable_not_possible e1)
               else if status AND 0x0000004F = 0x00000008 then
                 (let e2 = say Issuing_fault_reset e1;
                      e3 = sdo_write_access e2 node_id 0x6040 0x00 0x80 timeout_ms;
                      e4 = sleep sleep_time_after_transmission e3
                  in case sdo_read_access e4 node_id 0x6041 0x00 timeout_ms of
                       (None, e5) \<Rightarrow> (Inl TypeError, e5)
                     | (Some status', e5) \<Rightarrow>
                         if status' AND 0x0000004F \<noteq> 0x00000040
                         then (Inr (), say Fault_not_cleared e5)
                         else (Inr (), e5))
               else (Inr (), e1))
          (\<lambda>e6.
             let e7 = say (Issuing ''disable voltage command'') e6;
                 e8 = sdo_write_access e7 node_id 0x6040 0x00 0x00 timeout_ms;
                 e9 = sleep sleep_time_after_transmission e8;
                 (read_data', e10) = sdo_read_access e9 node_id 0x6041 0x00 timeout_ms;
                 e11 = (case read_data' of
                          None \<Rightarrow> e10
                        | Some status \<Rightarrow>
                            if status AND 0x0000004F \<noteq> 0x00000040
                            then say Wrong_status_word e10 else e10)
             in (Inr (), say Drive_disabled (sleep sleep_time_after_transmission e11))))"

section \<open>Heartbeat monitor\<close>

text \<open>The \<open>while\<close> loop of \<open>fetch_telegrams\<close> (lines 219 to 231).\<close>

function fetch_loop :: "int \<Rightarrow> int \<Rightarrow> bus \<Rightarrow> int \<times> bus" where
  "fetch_loop end_time received_heartbeat_count e =
     (if clock e < end_time then
        (case channel_read e of
           (Msg frame, e') \<Rightarrow>
             if frame_id frame = 0x700 + 127 then
               fetch_loop end_time (received_heartbeat_count + 1)
                 (say (Received_heartbeat (frame_id frame - 0x700)) e')
             else fetch_loop end_time received_heartbeat_count e'
         | (CanNoMsg, e') \<Rightarrow> fetch_loop end_time received_heartbeat_count e'
         | (CanlibException, e') \<Rightarrow>
             fetch_loop end_time received_heartbeat_count (say Error_fetching e'))
      else (received_heartbeat_count, e))"
  by pat_completeness auto
termination
  by (relation "measures [\<lambda>(t, n, e). length (rx e), \<lambda>(t, n, e). nat (t - clock e)]")
     (auto simp: channel_read_def say_def split: list.splits)

text \<open>
  \<open>fetch_telegrams\<close> has no \<open>return\<close>: its result is \<open>None\<close>, and the count is only
  printed. The model returns the bus alone.
\<close>

definition fetch_telegrams :: "bus \<Rightarrow> int \<Rightarrow> bus" where
  "fetch_telegrams e duration_seconds =
     (let end_time = clock e + 1000 * duration_seconds;
          e1 = say (Fetching_for duration_seconds) e;
          (received_heartbeat_count, e2) = fetch_loop end_time 0 e1
      in say (Total_heartbeats received_heartbeat_count) e2)"

section \<open>Motion controller\<close>

definition set_cia402_mode_of_operation :: "bus \<Rightarrow> int \<Rightarrow> int \<Rightarrow> int \<Rightarrow> bus" where
  "set_cia402_mode_of_operation e node_id mode timeout_ms =
     sdo_write_access (say (Setting_mode mode) e) node_id 0x6060 0x00 mode timeout_ms"

text \<open>
  \<open>move_motor_in_profile_velocity\<close>, one definition per commented block of its body.
  Lines 171 to 179: read the ramps and rewrite them when they differ (\<open>None != accel\<close>
  is true in Python).
\<close>

definition move_update_ramps :: "bus \<Rightarrow> int \<Rightarrow> int \<Rightarrow> int \<Rightarrow> int \<Rightarrow> outcome" where
  "move_update_ramps e node_id accel decel timeout_ms =
     (let (current_accel, e1) = sdo_read_access e node_id 0x6083 0x00 timeout_ms;
          (current_decel, e2) = sdo_read_access e1 node_id 0x6084 0x00 timeout_ms
      in if current_accel \<noteq> Some accel \<or> current_decel \<noteq> Some decel then
           and_then (disable_drive e2 node_id timeout_ms)
             (\<lambda>e3. let e4 = sdo_write_access e3 node_id 0x6083 0x00 accel timeout_ms;
                        e5 = sdo_write_access e4 node_id 0x6084 0x00 decel timeout_ms
                    in (Inr (), e5))
         else (Inr (), e2))"

text \<open>Lines 181 to 186.\<close>

definition move_check_mode :: "bus \<Rightarrow> int \<Rightarrow> int \<Rightarrow> outcome" where
  "move_check_mode e node_id timeout_ms =
     (let (mode_of_operation, e1) = sdo_read_access e node_id 0x6061 0x00 timeout_ms
      in if mode_of_operation \<noteq> Some 3 then
           and_then (disable_drive e1 node_id timeout_ms)
             (\<lambda>e2. enable_drive (set_cia402_mode_of_operation e2 node_id 3 timeout_ms)
                      node_id timeout_ms)
         else (Inr (), e1))"

text \<open>Lines 188 to 191.\<close>

definition move_check_enabled :: "bus \<Rightarrow> int \<Rightarrow> int \<Rightarrow> outcome" where
  "move_check_enabled e node_id timeout_ms =
     (let (status_word, e1) = sdo_read_access e node_id 0x6041 0x00 timeout_ms
      in if (case status_word of
               None \<Rightarrow> True
             | Some status \<Rightarrow> status AND 0x0000006F \<noteq> 0x00000027)
         then enable_drive e1 node_id timeout_ms
         else (Inr (), e1))"

text \<open>Lines 193 to 204.\<close>

definition move_run :: "bus \<Rightarrow> int \<Rightarrow> int \<Rightarrow> bool \<Rightarrow> int \<Rightarrow> int \<Rightarrow> outcome" where
  "move_run e node_id speed disable_after_motion movement_duration timeout_ms =
     (let e1 = say (Setting_speed speed) e;
          e2 = sdo_write_access e1 node_id 0x60FF 0x00 speed timeout_ms;
          e3 = (if movement_duration > 0
                then fetch_telegrams (say (Moving_for movement_duration) e2) movement_duration
                else e2)
      in if disable_after_motion then disable_drive e3 node_id timeout_ms else (Inr (), e3))"

definition move_motor_in_profile_velocity ::
  "bus \<Rightarrow> int \<Rightarrow> int \<Rightarrow> int \<Rightarrow> int \<Rightarrow> bool \<Rightarrow> int \<Rightarrow> int \<Rightarrow> outcome" where
  "move_motor_in_profile_velocity e node_id speed accel decel disable_after_motion
       movement_duration timeout_ms =
     and_then (move_update_ramps e node_id accel decel timeout_ms) (\<lambda>e1.
     and_then (move_check_mode e1 node_id timeout_ms) (\<lambda>e2.
     and_then (move_check_enabled e2 node_id timeout_ms) (\<lambda>e3.
       move_run e3 node_id speed disable_after_motion movement_duration timeout_ms)))"

section \<open>Vocabulary of the properties\<close>

text \<open>
  The request frames, named: the frame \<open>sdo_read_access\<close> builds for an object, and
  the frame \<open>sdo_write_access\<close> builds for an object and a value.
\<close>

definition read_request :: "int \<Rightarrow> int \<Rightarrow> int \<Rightarrow> frame" where
  "read_request node_id index subindex =
     \<lparr>frame_id = 0x600 + node_id,
      frame_data = [0x40, index AND 0xFF, drop_bit 8 index AND 0xFF, subindex, 0, 0, 0, 0],
      frame_flags = canMSG_STD\<rparr>"

definition write_request :: "int \<Rightarrow> int \<Rightarrow> int \<Rightarrow> int \<Rightarrow> frame" where
  "write_request node_id index subindex data =
     \<lparr>frame_id = 0x600 + node_id,
      frame_data = [0x2B, index AND 0xFF, drop_bit 8 index AND 0xFF, subindex,
                    data AND 0xFF, drop_bit 8 data AND 0xFF, 0, 0],
      frame_flags = canMSG_STD\<rparr>"

text \<open>The frames handed to \<open>channel.write\<close> between two moments.\<close>

definition sent_since :: "bus \<Rightarrow> bus \<Rightarrow> frame list" where
  "sent_since e e' = drop (length (tx e)) (tx e')"

text \<open>Whether the next \<open>channel.write\<close> raises.\<close>

definition next_write_raises :: "bus \<Rightarrow> bool" where
  "next_write_raises e = (case tx_faults e of [] \<Rightarrow> False | fault # faults \<Rightarrow> fault)"

text \<open>
  A frame is a write to an object when it starts with the write command and the two
  index bytes of the object. The configuration objects of the motion profile are
  0x6083 (acceleration), 0x6084 (deceleration) and 0x6060 (mode of operation).
\<close>

definition is_write_to :: "int \<Rightarrow> frame \<Rightarrow> bool" where
  "is_write_to index f =
     (take 3 (frame_data f) = [0x2B, index AND 0xFF, drop_bit 8 index AND 0xFF])"

definition config_write :: "frame \<Rightarrow> bool" where
  "config_write f = (is_write_to 0x6083 f \<or> is_write_to 0x6084 f \<or> is_write_to 0x6060 f)"

definition quiet :: "bus \<Rightarrow> bus \<Rightarrow> bool" where
  "quiet e e' = (\<exists>new. tx e' = tx e @ new \<and> filter config_write new = [])"

text \<open>
  The time a run of polls takes, the poll outcomes \<open>sdo_read_access\<close> of a node
  accepts (\<open>is_response\<close>) and the ones it passes over without leaving its loop
  (\<open>passed_over\<close>: a frame with another identifier, or no message).
\<close>

definition elapsed :: "(nat \<times> rx_outcome) list \<Rightarrow> int" where
  "elapsed polls = int (sum_list (map fst polls))"

definition is_response :: "int \<Rightarrow> rx_outcome \<Rightarrow> bool" where
  "is_response node_id r =
     (case r of Msg f \<Rightarrow> frame_id f = 0x600 + node_id - 0x80 | CanNoMsg \<Rightarrow> False
      | CanlibException \<Rightarrow> False)"

definition passed_over :: "int \<Rightarrow> rx_outcome \<Rightarrow> bool" where
  "passed_over node_id r =
     (case r of Msg f \<Rightarrow> frame_id f \<noteq> 0x600 + node_id - 0x80 | CanNoMsg \<Rightarrow> True
      | CanlibException \<Rightarrow> False)"

text \<open>
  The polls of an observation window: those that start before the deadline. A poll
  is a heartbeat of a node when it returns a frame with the identifier 0x700 plus the
  node.
\<close>

fun polled :: "int \<Rightarrow> int \<Rightarrow> (nat \<times> rx_outcome) list \<Rightarrow> (nat \<times> rx_outcome) list" where
  "polled now end_time [] = []"
| "polled now end_time ((took, r) # rest) =
     (if now < end_time then (took, r) # polled (now + int took) end_time rest else [])"

definition is_heartbeat :: "int \<Rightarrow> nat \<times> rx_outcome \<Rightarrow> bool" where
  "is_heartbeat node_id p =
     (case snd p of Msg f \<Rightarrow> frame_id f = 0x700 + node_id | CanNoMsg \<Rightarrow> False
      | CanlibException \<Rightarrow> False)"

text \<open>
  Concrete buses for the examples: a bus at time 0 on which nothing was sent or
  printed, every write succeeds and the given polls are pending; and the expedited
  upload response of a node for an object and a value.
\<close>

definition idle_bus :: "(nat \<times> rx_outcome) list \<Rightarrow> bus" where
  "idle_bus polls = \<lparr>clock = 0, rx = polls, tx = [], tx_faults = [], out = []\<rparr>"

definition sdo_reply :: "int \<Rightarrow> int \<Rightarrow> int \<Rightarrow> frame" where
  "sdo_reply node_id index v =
     \<lparr>frame_id = 0x580 + node_id,
      frame_data = [0x43, index AND 0xFF, drop_bit 8 index AND 0xFF, 0,
                    v AND 0xFF, drop_bit 8 v AND 0xFF, drop_bit 16 v AND 0xFF,
                    drop_bit 24 v AND 0xFF],
      frame_flags = canMSG_STD\<rparr>"

definition heartbeat_frame :: "int \<Rightarrow> frame" where
  "heartbeat_frame node_id =
     \<lparr>frame_id = 0x700 + node_id, frame_data = [5], frame_flags = canMSG_STD\<rparr>"

text \<open>
  The bus of a second call with acceleration and deceleration 1000: the drive of node 127
  reports both, mode 3 and an enabled statusword.
\<close>

definition second_call_bus :: bus where
  "second_call_bus =
     idle_bus [(1, Msg (sdo_reply 127 0x6083 1000)), (1, Msg (sdo_reply 127 0x6084 1000)),
               (1, Msg (sdo_reply 127 0x6061 3)), (1, Msg (sdo_reply 127 0x6041 0x27))]"

text \<open>
  The bus of a call on which the drive of node 127 reports acceleration and
  deceleration 1000 and mode 3, and then falls silent.
\<close>

definition unanswered_status_bus :: bus where
  "unanswered_status_bus =
     idle_bus [(1, Msg (sdo_reply 127 0x6083 1000)), (1, Msg (sdo_reply 127 0x6084 1000)),
               (1, Msg (sdo_reply 127 0x6061 3))]"

declare sdo_poll.simps [simp del] fetch_loop.simps [simp del]

lemmas run_defs = idle_bus_def sdo_reply_def heartbeat_frame_def enable_drive_def
  disable_drive_def sdo_read_access_def sdo_write_access_def channel_write_def
  channel_read_def say_def sleep_def and_then_def commands_def
  sleep_time_after_transmission_def sdo_poll.simps fetch_loop.simps fetch_telegrams_def
  Let_def sent_since_def read_request_def write_request_def

lemmas move_defs = move_update_ramps_def move_check_mode_def move_check_enabled_def
  move_run_def set_cia402_mode_of_operation_def

section \<open>Bytes\<close>

lemma and_255: "(v::int) AND 255 = v mod 256"
  using take_bit_eq_mask [of 8 v] by (simp add: take_bit_eq_mod mask_eq_exp_minus_1)

lemma low16: "((v::int) AND 255) + 256 * (drop_bit 8 v AND 255) = v mod 65536"
proof -
  have a: "v AND 255 = v mod 256" by (rule and_255)
  have b: "drop_bit 8 v AND 255 = v div 256 mod 256"
    using and_255 [of "drop_bit 8 v"] by (simp add: drop_bit_eq_div)
  have "v mod (256 * 256) = 256 * (v div 256 mod 256) + v mod 256"
    by (rule zmod_zmult2_eq) simp
  then show ?thesis
    unfolding a b by simp
qed

section \<open>Frames sent by each operation\<close>

lemma channel_read_keeps:
  "channel_read e = (r, e') \<Longrightarrow> tx e' = tx e \<and> tx_faults e' = tx_faults e \<and> out e' = out e"
  by (auto simp: channel_read_def split: list.splits)

lemma sdo_poll_tx: "tx (snd (sdo_poll c t e)) = tx e"
proof (induction c t e rule: sdo_poll.induct)
  case (1 c t e)
  obtain r e' where cr: "channel_read e = (r, e')" by (cases "channel_read e")
  then have k: "tx e' = tx e" using channel_read_keeps by blast
  show ?case
  proof (cases "clock e < t")
    case False
    then show ?thesis by (subst sdo_poll.simps) simp
  next
    case True
    show ?thesis
    proof (cases r)
      case (Msg response)
      show ?thesis
      proof (cases "frame_id response = c - 0x80")
        case True
        with \<open>clock e < t\<close> cr Msg k show ?thesis
          by (subst sdo_poll.simps) (simp add: Let_def say_def)
      next
        case False
        with \<open>clock e < t\<close> cr Msg have "tx (snd (sdo_poll c t e')) = tx e'"
          by (intro "1.IH"(1) [of r e' response]) simp_all
        with False \<open>clock e < t\<close> cr Msg k show ?thesis
          by (subst sdo_poll.simps) simp
      qed
    next
      case CanNoMsg
      with True cr have "tx (snd (sdo_poll c t e')) = tx e'"
        by (intro "1.IH"(2) [of r e']) simp_all
      with True cr CanNoMsg k show ?thesis
        by (subst sdo_poll.simps) simp
    next
      case CanlibException
      with True cr k show ?thesis
        by (subst sdo_poll.simps) (simp add: say_def)
    qed
  qed
qed


lemma fetch_loop_tx: "tx (snd (fetch_loop t n e)) = tx e"
proof (induction t n e rule: fetch_loop.induct)
  case (1 t n e)
  obtain r e' where cr: "channel_read e = (r, e')" by (cases "channel_read e")
  then have k: "tx e' = tx e" using channel_read_keeps by blast
  show ?case
  proof (cases "clock e < t")
    case False
    then show ?thesis by (subst fetch_loop.simps) simp
  next
    case True
    show ?thesis
    proof (cases r)
      case (Msg f)
      show ?thesis
      proof (cases "frame_id f = 0x700 + 127")
        case True
        with \<open>clock e < t\<close> cr Msg
        have "tx (snd (fetch_loop t (n + 1) (say (Received_heartbeat (frame_id f - 0x700)) e')))
            = tx (say (Received_heartbeat (frame_id f - 0x700)) e')"
          by (intro "1.IH"(1) [of r e' f]) simp_all
        with True \<open>clock e < t\<close> cr Msg k show ?thesis
          by (subst fetch_loop.simps) (simp add: say_def)
      next
        case False
        with \<open>clock e < t\<close> cr Msg have "tx (snd (fetch_loop t n e')) = tx e'"
          by (intro "1.IH"(2) [of r e' f]) simp_all
        with False \<open>clock e < t\<close> cr Msg k show ?thesis
          by (subst fetch_loop.simps) simp
      qed
    next
      case CanNoMsg
      with True cr have "tx (snd (fetch_loop t n e')) = tx e'"
        by (intro "1.IH"(3) [of r e']) simp_all
      with True cr CanNoMsg k show ?thesis
        by (subst fetch_loop.simps) simp
    next
      case CanlibException
      with True cr have "tx (snd (fetch_loop t n (say Error_fetching e'))) = tx (say Error_fetching e')"
        by (intro "1.IH"(4) [of r e']) simp_all
      with True cr CanlibException k show ?thesis
        by (subst fetch_loop.simps) (simp add: say_def)
    qed
  qed
qed

lemma channel_write_tx: "tx (snd (channel_write f e)) = tx e @ [f]"
  by (simp add: channel_write_def split: list.splits)

lemma sdo_read_access_tx:
  "tx (snd (sdo_read_access e node_id index subindex timeout_ms)) =
     tx e @ [read_request node_id index subindex]"
proof -
  let ?f = "read_request node_id index subindex"
  obtain ok e1 where w: "channel_write ?f e = (ok, e1)" by (cases "channel_write ?f e")
  then have e1: "tx e1 = tx e @ [?f]" using channel_write_tx [of ?f e] by simp
  show ?thesis
  proof (cases ok)
    case False
    with w e1 show ?thesis
      by (simp add: sdo_read_access_def Let_def read_request_def say_def)
  next
    case True
    let ?e2 = "say (Sent_read index subindex) e1"
    obtain r e3 where p: "sdo_poll (0x600 + node_id) (clock ?e2 + timeout_ms) ?e2 = (r, e3)"
      by (cases "sdo_poll (0x600 + node_id) (clock ?e2 + timeout_ms) ?e2")
    then have "tx e3 = tx ?e2"
      using sdo_poll_tx [of "0x600 + node_id" "clock ?e2 + timeout_ms" ?e2] by simp
    with True w e1 p show ?thesis
      by (cases r) (simp_all add: sdo_read_access_def Let_def read_request_def [symmetric] say_def)
  qed
qed

lemma sdo_write_access_tx:
  "tx (sdo_write_access e node_id index subindex data timeout_ms) =
     tx e @ [write_request node_id index subindex data]"
  by (simp add: sdo_write_access_def Let_def write_request_def channel_write_def say_def
      split: list.splits bool.splits)

lemma say_tx: "tx (say l e) = tx e"
  by (simp add: say_def)

lemma sleep_tx: "tx (sleep s e) = tx e"
  by (simp add: sleep_def)

lemma fetch_telegrams_tx: "tx (fetch_telegrams e d) = tx e"
proof -
  let ?e1 = "say (Fetching_for d) e"
  have "tx (snd (fetch_loop (clock e + 1000 * d) 0 ?e1)) = tx ?e1"
    by (rule fetch_loop_tx)
  then show ?thesis
    by (simp add: fetch_telegrams_def Let_def split_beta say_tx)
qed

lemma quiet_refl: "quiet e e"
  by (simp add: quiet_def)

lemma quiet_step:
  assumes "quiet e e'" and "tx e'' = tx e' @ new" and "filter config_write new = []"
  shows "quiet e e''"
  using assms by (auto simp: quiet_def)

lemma quiet_say: "quiet e e' \<Longrightarrow> quiet e (say l e')"
  by (rule quiet_step [where new = "[]"]) (simp_all add: say_tx)

lemma quiet_sleep: "quiet e e' \<Longrightarrow> quiet e (sleep s e')"
  by (rule quiet_step [where new = "[]"]) (simp_all add: sleep_tx)

lemma quiet_fetch: "quiet e e' \<Longrightarrow> quiet e (fetch_telegrams e' d)"
  by (rule quiet_step [where new = "[]"]) (simp_all add: fetch_telegrams_tx)

lemma quiet_read: "quiet e e' \<Longrightarrow> quiet e (snd (sdo_read_access e' n i s t))"
  by (rule quiet_step [where new = "[read_request n i s]"])
     (simp_all add: sdo_read_access_tx config_write_def is_write_to_def read_request_def)

lemma quiet_controlword: "quiet e e' \<Longrightarrow> quiet e (sdo_write_access e' n 0x6040 s c t)"
  by (rule quiet_step [where new = "[write_request n 0x6040 s c]"])
     (simp_all add: sdo_write_access_tx config_write_def is_write_to_def write_request_def)

lemma quiet_velocity: "quiet e e' \<Longrightarrow> quiet e (sdo_write_access e' n 0x60FF s c t)"
  by (rule quiet_step [where new = "[write_request n 0x60FF s c]"])
     (simp_all add: sdo_write_access_tx config_write_def is_write_to_def write_request_def)

lemma quiet_issue_commands: "quiet e e' \<Longrightarrow> quiet e (issue_commands e' n t cmds)"
proof (induction cmds arbitrary: e')
  case Nil
  then show ?case by simp
next
  case (Cons c cmds)
  obtain command description where c: "c = (command, description)" by (cases c)
  show ?case
    unfolding c issue_commands.simps Let_def split_beta
    by (intro Cons.IH quiet_read quiet_sleep quiet_controlword quiet_say Cons.prems)
qed

lemma quiet_enable: "quiet e e' \<Longrightarrow> quiet e (snd (enable_drive e' n t))"
  unfolding enable_drive_def and_then_def Let_def split_beta
  by (auto split: option.splits sum.splits if_splits
      intro!: quiet_say quiet_issue_commands quiet_read quiet_sleep quiet_controlword)

lemma quiet_disable: "quiet e e' \<Longrightarrow> quiet e (snd (disable_drive e' n t))"
  unfolding disable_drive_def and_then_def Let_def split_beta
  by (auto split: option.splits sum.splits if_splits
      intro!: quiet_say quiet_issue_commands quiet_read quiet_sleep quiet_controlword)

lemma quiet_check_enabled: "quiet e e' \<Longrightarrow> quiet e (snd (move_check_enabled e' n t))"
  unfolding move_check_enabled_def Let_def split_beta
  by (auto split: option.splits intro!: quiet_enable quiet_read)

lemma quiet_run: "quiet e e' \<Longrightarrow> quiet e (snd (move_run e' n v dis dur t))"
  unfolding move_run_def Let_def split_beta
  by (auto intro!: quiet_disable quiet_fetch quiet_velocity quiet_say)


lemma sent_since_quiet: "quiet e e' \<Longrightarrow> filter config_write (sent_since e e') = []"
  by (auto simp: quiet_def sent_since_def)


section \<open>The polling loops\<close>

lemma elapsed_Cons: "elapsed ((took, r) # polls) = int took + elapsed polls"
  by (simp add: elapsed_def)

lemma elapsed_nonneg: "0 \<le> elapsed polls"
  by (simp add: elapsed_def)

lemma sdo_poll_hit:
  assumes "rx e = pre @ (took, Msg f) # post"
    and "list_all (\<lambda>p. passed_over node_id (snd p)) pre"
    and "frame_id f = 0x600 + node_id - 0x80"
    and "clock e + elapsed pre < t"
  shows "sdo_poll (0x600 + node_id) t e =
     (Some (int_from_bytes_little (drop 4 (frame_data f))),
      say (Received_data (int_from_bytes_little (drop 4 (frame_data f))))
        (e\<lparr>clock := clock e + elapsed pre + int took, rx := post\<rparr>))"
  using assms
proof (induction pre arbitrary: e)
  case Nil
  then have "clock e < t" by (simp add: elapsed_def)
  with Nil show ?case
    by (subst sdo_poll.simps) (simp add: channel_read_def Let_def elapsed_def)
next
  case (Cons p pre)
  obtain d r where p: "p = (d, r)" by (cases p)
  let ?e' = "e\<lparr>clock := clock e + int d, rx := pre @ (took, Msg f) # post\<rparr>"
  have now: "clock e < t"
    using Cons.prems(4) elapsed_nonneg [of pre] by (simp add: p elapsed_Cons)
  have cr: "channel_read e = (r, ?e')"
    using Cons.prems(1) by (simp add: channel_read_def p)
  have skip: "sdo_poll (0x600 + node_id) t e = sdo_poll (0x600 + node_id) t ?e'"
    using Cons.prems(2) now cr
    by (subst sdo_poll.simps) (simp add: p passed_over_def split: rx_outcome.splits)
  have "sdo_poll (0x600 + node_id) t ?e' =
     (Some (int_from_bytes_little (drop 4 (frame_data f))),
      say (Received_data (int_from_bytes_little (drop 4 (frame_data f))))
        (?e'\<lparr>clock := clock ?e' + elapsed pre + int took, rx := post\<rparr>))"
    using Cons.prems by (intro Cons.IH) (simp_all add: p elapsed_Cons)
  with skip show ?case
    by (simp add: p elapsed_Cons add.assoc)
qed

lemma sdo_poll_late:
  assumes "rx e = pre @ post"
    and "list_all (\<lambda>p. \<not> is_response node_id (snd p)) pre"
    and "t \<le> clock e + elapsed pre"
  shows "fst (sdo_poll (0x600 + node_id) t e) = None"
  using assms
proof (induction pre arbitrary: e)
  case Nil
  then show ?case
    by (subst sdo_poll.simps) (simp add: elapsed_def)
next
  case (Cons p pre)
  obtain d r where p: "p = (d, r)" by (cases p)
  let ?e' = "e\<lparr>clock := clock e + int d, rx := pre @ post\<rparr>"
  have cr: "channel_read e = (r, ?e')"
    using Cons.prems(1) by (simp add: channel_read_def p)
  have rec: "fst (sdo_poll (0x600 + node_id) t ?e') = None"
    using Cons.prems by (intro Cons.IH) (simp_all add: p elapsed_Cons)
  show ?case
  proof (cases "clock e < t")
    case False
    then show ?thesis by (subst sdo_poll.simps) simp
  next
    case True
    with cr rec Cons.prems(2) show ?thesis
      by (subst sdo_poll.simps)
         (simp add: p is_response_def split: rx_outcome.splits)
  qed
qed

lemma sdo_poll_never:
  "list_all (\<lambda>p. \<not> is_response node_id (snd p)) (rx e) \<Longrightarrow>
     fst (sdo_poll (0x600 + node_id) t e) = None"
proof (induction "0x600 + node_id" t e rule: sdo_poll.induct)
  case (1 t e)
  show ?case
  proof (cases "clock e < t")
    case False
    then show ?thesis by (subst sdo_poll.simps) simp
  next
    case True
    obtain r e' where cr: "channel_read e = (r, e')" by (cases "channel_read e")
    have rest: "list_all (\<lambda>p. \<not> is_response node_id (snd p)) (rx e')"
      and r: "\<not> is_response node_id r"
      using cr "1.prems" by (auto simp: channel_read_def is_response_def split: list.splits)
    show ?thesis
    proof (cases r)
      case (Msg f)
      with r have other: "frame_id f \<noteq> 0x600 + node_id - 0x80"
        by (simp add: is_response_def)
      with True cr Msg rest have "fst (sdo_poll (0x600 + node_id) t e') = None"
        by (intro "1.hyps"(1) [of r e' f]) simp_all
      with True cr Msg other show ?thesis
        by (subst sdo_poll.simps) simp
    next
      case CanNoMsg
      with True cr rest have "fst (sdo_poll (0x600 + node_id) t e') = None"
        by (intro "1.hyps"(2) [of r e']) simp_all
      with True cr CanNoMsg show ?thesis
        by (subst sdo_poll.simps) simp
    next
      case CanlibException
      with True cr show ?thesis
        by (subst sdo_poll.simps) simp
    qed
  qed
qed


lemma bytes_4_to_7:
  assumes "length xs = 8"
  shows "int_from_bytes_little (drop 4 xs) =
     xs ! 4 + 256 * xs ! 5 + 65536 * xs ! 6 + 16777216 * xs ! 7"
proof -
  from assms obtain a b c d b4 b5 b6 b7 where "xs = [a, b, c, d, b4, b5, b6, b7]"
    by (auto simp: length_Suc_conv eval_nat_numeral)
  then show ?thesis by simp
qed

lemma channel_write_ok:
  "\<not> next_write_raises e \<Longrightarrow>
     channel_write f e = (True, e\<lparr>tx := tx e @ [f], tx_faults := tl (tx_faults e)\<rparr>)"
  by (auto simp: next_write_raises_def channel_write_def split: list.splits)

lemma sdo_read_access_hit:
  assumes "\<not> next_write_raises e"
    and "rx e = pre @ (took, Msg f) # post"
    and "list_all (\<lambda>p. passed_over node_id (snd p)) pre"
    and "frame_id f = 0x600 + node_id - 0x80"
    and "elapsed pre < timeout_ms"
  shows "sdo_read_access e node_id index subindex timeout_ms =
     (Some (int_from_bytes_little (drop 4 (frame_data f))),
      e\<lparr>clock := clock e + elapsed pre + int took, rx := post,
        tx := tx e @ [read_request node_id index subindex],
        tx_faults := tl (tx_faults e),
        out := out e @ [Sent_read index subindex,
                        Received_data (int_from_bytes_little (drop 4 (frame_data f)))]\<rparr>)"
proof -
  let ?e2 = "say (Sent_read index subindex)
      (e\<lparr>tx := tx e @ [read_request node_id index subindex], tx_faults := tl (tx_faults e)\<rparr>)"
  have "sdo_poll (0x600 + node_id) (clock ?e2 + timeout_ms) ?e2 =
     (Some (int_from_bytes_little (drop 4 (frame_data f))),
      say (Received_data (int_from_bytes_little (drop 4 (frame_data f))))
        (?e2\<lparr>clock := clock ?e2 + elapsed pre + int took, rx := post\<rparr>))"
    using assms(2-5) by (intro sdo_poll_hit) (simp_all add: say_def)
  then show ?thesis
    using channel_write_ok [OF assms(1), of "read_request node_id index subindex"]
    by (simp add: sdo_read_access_def Let_def read_request_def [symmetric] say_def)
qed

lemma sdo_read_access_miss:
  assumes "fst (sdo_poll (0x600 + node_id) (clock e + timeout_ms)
             (say (Sent_read index subindex)
                (snd (channel_write (read_request node_id index subindex) e)))) = None"
  shows "fst (sdo_read_access e node_id index subindex timeout_ms) = None"
  using assms
  by (cases "channel_write (read_request node_id index subindex) e")
     (auto simp: sdo_read_access_def Let_def read_request_def [symmetric] say_def channel_write_def
       split: bool.splits option.splits prod.splits list.splits)

lemma fetch_loop_count:
  "fst (fetch_loop t n e) =
     n + int (length (filter (is_heartbeat 127) (polled (clock e) t (rx e))))"
proof (induction t n e rule: fetch_loop.induct)
  case (1 t n e)
  show ?case
  proof (cases "clock e < t")
    case False
    then show ?thesis
      by (subst fetch_loop.simps) (cases "rx e"; auto)
  next
    case True
    obtain r e' where cr: "channel_read e = (r, e')" by (cases "channel_read e")
    have step: "length (filter (is_heartbeat 127) (polled (clock e) t (rx e))) =
        (if is_heartbeat 127 (0, r) then 1 else 0) +
        length (filter (is_heartbeat 127) (polled (clock e') t (rx e')))"
      using cr True
      by (auto simp: channel_read_def is_heartbeat_def split: list.splits)
    show ?thesis
    proof (cases r)
      case (Msg f)
      show ?thesis
      proof (cases "frame_id f = 0x700 + 127")
        case hb: True
        let ?e'' = "say (Received_heartbeat (frame_id f - 0x700)) e'"
        have "fst (fetch_loop t (n + 1) ?e'') =
            n + 1 + int (length (filter (is_heartbeat 127) (polled (clock ?e'') t (rx ?e''))))"
          using True cr Msg hb by (intro "1.IH"(1) [of r e' f]) simp_all
        with True cr Msg hb step show ?thesis
          by (subst fetch_loop.simps) (simp add: say_def is_heartbeat_def)
      next
        case other: False
        have "fst (fetch_loop t n e') =
            n + int (length (filter (is_heartbeat 127) (polled (clock e') t (rx e'))))"
          using True cr Msg other by (intro "1.IH"(2) [of r e' f]) simp_all
        with True cr Msg other step show ?thesis
          by (subst fetch_loop.simps) (simp add: is_heartbeat_def)
      qed
    next
      case CanNoMsg
      have "fst (fetch_loop t n e') =
          n + int (length (filter (is_heartbeat 127) (polled (clock e') t (rx e'))))"
        using True cr CanNoMsg by (intro "1.IH"(3) [of r e']) simp_all
      with True cr CanNoMsg step show ?thesis
        by (subst fetch_loop.simps) (simp add: is_heartbeat_def)
    next
      case CanlibException
      let ?e'' = "say Error_fetching e'"
      have "fst (fetch_loop t n ?e'') =
          n + int (length (filter (is_heartbeat 127) (polled (clock ?e'') t (rx ?e''))))"
        using True cr CanlibException by (intro "1.IH"(4) [of r e']) simp_all
      with True cr CanlibException step show ?thesis
        by (subst fetch_loop.simps) (simp add: say_def is_heartbeat_def)
    qed
  qed
qed


section \<open>Claims about the SDO client\<close>

text \<open>
  C6. The one frame \<open>sdo_read_access\<close> hands to the transport is the read request:
  identifier 0x600 + node_id, data bytes
  [0x40, index & 0xFF, (index >> 8) & 0xFF, subindex, 0, 0, 0, 0].
  This holds for every node, index and subindex.
\<close>

theorem sdo_read_access_request_frame:
  "sent_since e (snd (sdo_read_access e node_id index subindex timeout_ms)) =
     [\<lparr>frame_id = 0x600 + node_id,
       frame_data = [0x40, index AND 0xFF, drop_bit 8 index AND 0xFF, subindex, 0, 0, 0, 0],
       frame_flags = canMSG_STD\<rparr>]"
  by (simp add: sent_since_def sdo_read_access_tx read_request_def)

text \<open>
  C7. \<open>sdo_write_access\<close> hands exactly one frame to the transport, with command byte
  0x2B whatever the value; it polls nothing and waits for nothing (the pending polls
  and the clock are as before); it makes one attempt to send (one entry of the
  write outcomes is used up); and when the send fails it prints "Failed to send SDO
  write" and returns as it does after a success.
\<close>

theorem sdo_write_access_sends_once:
  "tx (sdo_write_access e node_id index subindex data timeout_ms) =
     tx e @ [write_request node_id index subindex data]
   \<and> hd (frame_data (write_request node_id index subindex data)) = 0x2B
   \<and> rx (sdo_write_access e node_id index subindex data timeout_ms) = rx e
   \<and> clock (sdo_write_access e node_id index subindex data timeout_ms) = clock e
   \<and> tx_faults (sdo_write_access e node_id index subindex data timeout_ms) = tl (tx_faults e)
   \<and> out (sdo_write_access e node_id index subindex data timeout_ms) =
       out e @ [if next_write_raises e then Failed_send_write
                else Sent_write index subindex data]"
  by (simp add: sdo_write_access_def Let_def write_request_def channel_write_def say_def
      next_write_raises_def split: list.splits bool.splits)

text \<open>
  C8. Of the value passed to \<open>sdo_write_access\<close> only the low 16 bits are sent:
  bytes 4 and 5 are data & 0xFF and (data >> 8) & 0xFF, bytes 6 and 7 are zero, and
  the four payload bytes read back little-endian are data mod 2^16. They give the
  value back exactly when it lies in 0 .. 65535.
\<close>

theorem sdo_write_access_low_16_bits:
  "drop 4 (frame_data (last (tx (sdo_write_access e node_id index subindex data timeout_ms)))) =
     [data AND 0xFF, drop_bit 8 data AND 0xFF, 0, 0]
   \<and> int_from_bytes_little
        (drop 4 (frame_data (last (tx (sdo_write_access e node_id index subindex data
           timeout_ms))))) = data mod 2 ^ 16
   \<and> (int_from_bytes_little
        (drop 4 (frame_data (last (tx (sdo_write_access e node_id index subindex data
           timeout_ms))))) = data) = (0 \<le> data \<and> data < 2 ^ 16)"
proof -
  have "data mod 65536 = data \<longleftrightarrow> 0 \<le> data \<and> data < 65536"
    by (metis mod_pos_pos_trivial pos_mod_bound pos_mod_sign zero_less_numeral)
  then show ?thesis
    using low16 [of data] by (simp add: sdo_write_access_tx write_request_def)
qed

lemma sdo_write_access_truncates_70000:
  "drop 4 (frame_data (last (tx (sdo_write_access (idle_bus []) 1 0x6083 0 70000 1000)))) =
     [0x70, 0x11, 0, 0]"
  by (simp add: sdo_write_access_tx write_request_def)

text \<open>
  C2. \<open>sdo_read_access\<close> returns the value of the first frame whose identifier is
  0x600 + node_id - 0x80: when the request is sent, the polls before that frame
  return frames with other identifiers or no message, and the poll that returns it
  starts before the deadline, the result is the little-endian number in bytes 4 to 7
  of the frame, and nothing is printed about the frames passed over. When no poll
  returns such a frame, or none does before the deadline has passed, the result is
  \<open>None\<close>.
\<close>

theorem sdo_read_access_first_response:
  "(\<not> next_write_raises e \<and> rx e = pre @ (took, Msg f) # post
      \<and> list_all (\<lambda>p. passed_over node_id (snd p)) pre
      \<and> frame_id f = 0x600 + node_id - 0x80 \<and> elapsed pre < timeout_ms
      \<and> length (frame_data f) = 8
    \<longrightarrow> fst (sdo_read_access e node_id index subindex timeout_ms) =
          Some (frame_data f ! 4 + 256 * frame_data f ! 5 + 65536 * frame_data f ! 6
                + 16777216 * frame_data f ! 7)
        \<and> out (snd (sdo_read_access e node_id index subindex timeout_ms)) =
          out e @ [Sent_read index subindex,
                   Received_data (frame_data f ! 4 + 256 * frame_data f ! 5
                     + 65536 * frame_data f ! 6 + 16777216 * frame_data f ! 7)]
        \<and> rx (snd (sdo_read_access e node_id index subindex timeout_ms)) = post)
   \<and> (rx e = pre' @ post' \<and> list_all (\<lambda>p. \<not> is_response node_id (snd p)) pre'
        \<and> (post' = [] \<or> timeout_ms \<le> elapsed pre')
    \<longrightarrow> fst (sdo_read_access e node_id index subindex timeout_ms) = None)"
proof (intro conjI impI)
  assume h: "\<not> next_write_raises e \<and> rx e = pre @ (took, Msg f) # post
      \<and> list_all (\<lambda>p. passed_over node_id (snd p)) pre
      \<and> frame_id f = 0x600 + node_id - 0x80 \<and> elapsed pre < timeout_ms
      \<and> length (frame_data f) = 8"
  let ?v = "frame_data f ! 4 + 256 * frame_data f ! 5 + 65536 * frame_data f ! 6
      + 16777216 * frame_data f ! 7"
  from h have v: "int_from_bytes_little (drop 4 (frame_data f)) = ?v"
    by (intro bytes_4_to_7) simp
  from h have r: "sdo_read_access e node_id index subindex timeout_ms =
     (Some (int_from_bytes_little (drop 4 (frame_data f))),
      e\<lparr>clock := clock e + elapsed pre + int took, rx := post,
        tx := tx e @ [read_request node_id index subindex],
        tx_faults := tl (tx_faults e),
        out := out e @ [Sent_read index subindex,
                        Received_data (int_from_bytes_little (drop 4 (frame_data f)))]\<rparr>)"
    by (intro sdo_read_access_hit) simp_all
  show "fst (sdo_read_access e node_id index subindex timeout_ms) = Some ?v"
    by (simp add: r v)
  show "out (snd (sdo_read_access e node_id index subindex timeout_ms)) =
      out e @ [Sent_read index subindex, Received_data ?v]"
    by (simp add: r v)
  show "rx (snd (sdo_read_access e node_id index subindex timeout_ms)) = post"
    by (simp add: r)
next
  assume h: "rx e = pre' @ post' \<and> list_all (\<lambda>p. \<not> is_response node_id (snd p)) pre'
        \<and> (post' = [] \<or> timeout_ms \<le> elapsed pre')"
  let ?e2 = "say (Sent_read index subindex)
      (snd (channel_write (read_request node_id index subindex) e))"
  have rx2: "rx ?e2 = rx e" and clock2: "clock ?e2 = clock e"
    by (simp_all add: say_def channel_write_def split: list.splits)
  have "fst (sdo_poll (0x600 + node_id) (clock e + timeout_ms) ?e2) = None"
  proof (cases "post' = []")
    case True
    with h rx2 show ?thesis by (intro sdo_poll_never) simp
  next
    case False
    with h have "clock e + timeout_ms \<le> clock ?e2 + elapsed pre'"
      by (simp add: clock2)
    with h rx2 show ?thesis by (intro sdo_poll_late [where pre = pre' and post = post']) simp_all
  qed
  then show "fst (sdo_read_access e node_id index subindex timeout_ms) = None"
    by (rule sdo_read_access_miss)
qed

theorem sdo_read_access_first_response_witness:
  "fst (sdo_read_access
          (idle_bus [(10, CanNoMsg), (5, Msg (heartbeat_frame 5)),
             (20, Msg \<lparr>frame_id = 0x585, frame_data = [0, 0, 0, 0, 0x27, 0, 0, 0],
                       frame_flags = canMSG_STD\<rparr>)])
          5 0x6041 0x00 1000) = Some 0x27
   \<and> fst (sdo_read_access (idle_bus [(10, CanNoMsg), (5, Msg (heartbeat_frame 5))])
          5 0x6041 0x00 1000) = None"
proof -
  let ?f = "\<lparr>frame_id = 0x585, frame_data = [0, 0, 0, 0, 0x27, 0, 0, 0],
             frame_flags = canMSG_STD\<rparr>"
  let ?pre = "[(10, CanNoMsg), (5, Msg (heartbeat_frame 5))]"
  have a: "\<not> next_write_raises (idle_bus (?pre @ [(20, Msg ?f)]))
      \<and> rx (idle_bus (?pre @ [(20, Msg ?f)])) = ?pre @ (20, Msg ?f) # []
      \<and> list_all (\<lambda>p. passed_over 5 (snd p)) ?pre
      \<and> frame_id ?f = 0x600 + 5 - 0x80 \<and> elapsed ?pre < 1000
      \<and> length (frame_data ?f) = 8"
    by (simp add: next_write_raises_def idle_bus_def passed_over_def heartbeat_frame_def
        elapsed_def)
  have b: "rx (idle_bus ?pre) = ?pre @ [] \<and> list_all (\<lambda>p. \<not> is_response 5 (snd p)) ?pre
      \<and> ([] = ([] :: (nat \<times> rx_outcome) list) \<or> 1000 \<le> elapsed ?pre)"
    by (simp add: idle_bus_def is_response_def heartbeat_frame_def)
  from a sdo_read_access_first_response
    [where e = "idle_bus (?pre @ [(20, Msg ?f)])" and pre = ?pre and took = 20 and f = ?f
       and post = "[]" and node_id = 5 and timeout_ms = 1000 and index = "0x6041"
       and subindex = 0]
  have "fst (sdo_read_access (idle_bus (?pre @ [(20, Msg ?f)])) 5 0x6041 0x00 1000) = Some 0x27"
    by simp
  moreover from b sdo_read_access_first_response
    [where e = "idle_bus ?pre" and pre' = ?pre and post' = "[]" and node_id = 5
       and timeout_ms = 1000 and index = "0x6041" and subindex = 0]
  have "fst (sdo_read_access (idle_bus ?pre) 5 0x6041 0x00 1000) = None"
    by simp
  ultimately show ?thesis by simp
qed


section \<open>Claims about the heartbeat monitor\<close>

text \<open>
  C4, as the code has it. The counter of \<open>fetch_telegrams\<close> goes up by one for each
  frame polled in the window whose identifier is 0x700 + 127, whatever node the
  caller works with, and no other poll changes it; the function prints the final
  count as its last line and returns nothing.
\<close>

theorem fetch_telegrams_counts_node_127:
  "last (out (fetch_telegrams e duration_seconds)) =
     Total_heartbeats
       (int (length (filter (is_heartbeat 127)
          (polled (clock e) (clock e + 1000 * duration_seconds) (rx e)))))"
proof -
  let ?e1 = "say (Fetching_for duration_seconds) e"
  have "clock ?e1 = clock e" and "rx ?e1 = rx e"
    by (simp_all add: say_def)
  then have "fst (fetch_loop (clock e + 1000 * duration_seconds) 0 ?e1) =
      int (length (filter (is_heartbeat 127)
          (polled (clock e) (clock e + 1000 * duration_seconds) (rx e))))"
    using fetch_loop_count [of "clock e + 1000 * duration_seconds" 0 ?e1] by simp
  then show ?thesis
    by (simp add: fetch_telegrams_def Let_def split_beta say_def)
qed

text \<open>
  C4 as stated fails: with node 5, a heartbeat frame of node 5 (identifier 0x705)
  arrives in the window and the count printed is 0.
\<close>

theorem fetch_telegrams_node_5_counterexample:
  "length (filter (is_heartbeat 5)
       (polled 0 1000 [(10, Msg (heartbeat_frame 5))])) = 1
   \<and> out (fetch_telegrams (idle_bus [(10, Msg (heartbeat_frame 5))]) 1) =
       [Fetching_for 1, Total_heartbeats 0]"
  by (simp add: run_defs is_heartbeat_def)

lemma fetch_telegrams_node_127_example:
  "out (fetch_telegrams (idle_bus [(10, Msg (heartbeat_frame 127)), (10, Msg (heartbeat_frame 5)),
      (10, CanlibException), (10, Msg (heartbeat_frame 127))]) 1) =
       [Fetching_for 1, Received_heartbeat 127, Error_fetching, Received_heartbeat 127,
        Total_heartbeats 2]"
  by (simp add: run_defs)

section \<open>Claims about the drive state machine\<close>

text \<open>
  C9. In \<open>enable_drive\<close> and in \<open>disable_drive\<close>: when the first statusword read
  returns a value with (status & 0x4F) = 0x08 and the read after the fault reset
  returns \<open>None\<close>, the function raises \<open>TypeError\<close> at that point; nothing more is
  printed or sent.
\<close>

theorem fault_reset_unanswered_raises:
  assumes "sdo_read_access e node_id 0x6041 0x00 timeout_ms = (Some status, e1)"
    and "status AND 0x4F = 0x08"
    and "sdo_read_access
           (sleep 1 (sdo_write_access (say Issuing_fault_reset e1) node_id 0x6040 0x00 0x80
              timeout_ms))
           node_id 0x6041 0x00 timeout_ms = (None, e2)"
  shows "enable_drive e node_id timeout_ms = (Inl TypeError, e2)
       \<and> disable_drive e node_id timeout_ms = (Inl TypeError, e2)"
proof -
  have "status AND 0x4F \<noteq> 0x0F"
    using assms(2) by simp
  with assms show ?thesis
    by (simp add: enable_drive_def disable_drive_def and_then_def Let_def
        sleep_time_after_transmission_def)
qed

theorem fault_reset_unanswered_raises_witness:
  "sdo_read_access (idle_bus [(5, Msg (sdo_reply 1 0x6041 0x08))]) 1 0x6041 0x00 1000 =
     (Some 0x08,
      \<lparr>clock = 5, rx = [], tx = [read_request 1 0x6041 0], tx_faults = [],
        out = [Sent_read 0x6041 0, Received_data 8]\<rparr>)
   \<and> fst (enable_drive (idle_bus [(5, Msg (sdo_reply 1 0x6041 0x08))]) 1 1000) = Inl TypeError
   \<and> fst (disable_drive (idle_bus [(5, Msg (sdo_reply 1 0x6041 0x08))]) 1 1000) = Inl TypeError"
proof -
  let ?e = "idle_bus [(5, Msg (sdo_reply 1 0x6041 0x08))]"
  let ?e1 = "\<lparr>clock = 5, rx = [], tx = [read_request 1 0x6041 0], tx_faults = [],
        out = [Sent_read 0x6041 0, Received_data 8]\<rparr>"
  let ?e2 = "\<lparr>clock = 2005, rx = [],
        tx = [read_request 1 0x6041 0, write_request 1 0x6040 0 0x80, read_request 1 0x6041 0],
        tx_faults = [],
        out = [Sent_read 0x6041 0, Received_data 8, Issuing_fault_reset,
               Sent_write 0x6040 0 0x80, Sent_read 0x6041 0, Timeout_waiting]\<rparr>"
  have a: "sdo_read_access ?e 1 0x6041 0x00 1000 = (Some 0x08, ?e1)"
    by (simp add: run_defs)
  have b: "(0x08 :: int) AND 0x4F = 0x08"
    by simp
  have c: "sdo_read_access
           (sleep 1 (sdo_write_access (say Issuing_fault_reset ?e1) 1 0x6040 0x00 0x80 1000))
           1 0x6041 0x00 1000 = (None, ?e2)"
    by (simp add: run_defs)
  from fault_reset_unanswered_raises [OF a b c] a show ?thesis
    by simp
qed

text \<open>
  C1 fails on the code. The first statusword read returns 0x0F, fault reaction
  active: \<open>enable_drive\<close> prints that enabling is not possible and then sends the
  four commands of the enable sequence all the same; \<open>disable_drive\<close> prints that
  disabling is not possible and sends the disable-voltage command.
\<close>

theorem fault_reaction_active_still_writes:
  "sent_since (idle_bus [(5, Msg (sdo_reply 1 0x6041 0x0F))])
     (snd (enable_drive (idle_bus [(5, Msg (sdo_reply 1 0x6041 0x0F))]) 1 1000)) =
     [read_request 1 0x6041 0,
      write_request 1 0x6040 0 0x00, read_request 1 0x6041 0,
      write_request 1 0x6040 0 0x06, read_request 1 0x6041 0,
      write_request 1 0x6040 0 0x07, read_request 1 0x6041 0,
      write_request 1 0x6040 0 0x0F, read_request 1 0x6041 0]
   \<and> take 3 (out (snd (enable_drive (idle_bus [(5, Msg (sdo_reply 1 0x6041 0x0F))]) 1 1000))) =
     [Sent_read 0x6041 0, Received_data 0x0F, Enable_not_possible]
   \<and> sent_since (idle_bus [(5, Msg (sdo_reply 1 0x6041 0x0F))])
     (snd (disable_drive (idle_bus [(5, Msg (sdo_reply 1 0x6041 0x0F))]) 1 1000)) =
     [read_request 1 0x6041 0, write_request 1 0x6040 0 0x00, read_request 1 0x6041 0]
   \<and> take 3 (out (snd (disable_drive (idle_bus [(5, Msg (sdo_reply 1 0x6041 0x0F))]) 1 1000))) =
     [Sent_read 0x6041 0, Received_data 0x0F, Disable_not_possible]"
  by (simp add: run_defs)

text \<open>
  C5 fails on the code. The first statusword read returns 0x08, fault, and the
  drive does not answer the read after the fault reset: \<open>enable_drive\<close> has written
  0x80 to the controlword, raises \<open>TypeError\<close> and writes none of the four commands.
\<close>

theorem enable_after_unanswered_fault_reset:
  "fst (enable_drive (idle_bus [(5, Msg (sdo_reply 1 0x6041 0x08))]) 1 1000) = Inl TypeError
   \<and> sent_since (idle_bus [(5, Msg (sdo_reply 1 0x6041 0x08))])
       (snd (enable_drive (idle_bus [(5, Msg (sdo_reply 1 0x6041 0x08))]) 1 1000)) =
     [read_request 1 0x6041 0, write_request 1 0x6040 0 0x80, read_request 1 0x6041 0]"
  by (simp add: run_defs)


lemma issue_commands_tx:
  "tx (issue_commands e n t cmds) =
     tx e @ concat (map (\<lambda>c. [write_request n 0x6040 0 (fst c), read_request n 0x6041 0]) cmds)"
proof (induction cmds arbitrary: e)
  case Nil
  then show ?case by simp
next
  case (Cons c cmds)
  obtain command description where c: "c = (command, description)" by (cases c)
  show ?case
    by (simp add: c Let_def split_beta Cons.IH sdo_read_access_tx sleep_tx
        sdo_write_access_tx say_tx)
qed

lemma sent_since_append: "tx e' = tx e @ new \<Longrightarrow> sent_since e e' = new"
  by (simp add: sent_since_def)

lemma enable_drive_fault_reaction_active:
  assumes "sdo_read_access e n 0x6041 0x00 t = (Some status, e1)"
    and "status AND 0x4F = 0x0F"
  shows "sent_since e (snd (enable_drive e n t)) =
     [read_request n 0x6041 0,
      write_request n 0x6040 0 0x00, read_request n 0x6041 0,
      write_request n 0x6040 0 0x06, read_request n 0x6041 0,
      write_request n 0x6040 0 0x07, read_request n 0x6041 0,
      write_request n 0x6040 0 0x0F, read_request n 0x6041 0]"
proof -
  have "tx e1 = tx e @ [read_request n 0x6041 0]"
    using sdo_read_access_tx [of e n "0x6041" 0 t] assms(1) by simp
  with assms show ?thesis
    by (intro sent_since_append)
       (simp add: enable_drive_def and_then_def say_tx issue_commands_tx,
        simp add: commands_def)
qed

lemma disable_drive_fault_reaction_active:
  assumes "sdo_read_access e n 0x6041 0x00 t = (Some status, e1)"
    and "status AND 0x4F = 0x0F"
  shows "sent_since e (snd (disable_drive e n t)) =
     [read_request n 0x6041 0, write_request n 0x6040 0 0x00, read_request n 0x6041 0]"
proof -
  have "tx e1 = tx e @ [read_request n 0x6041 0]"
    using sdo_read_access_tx [of e n "0x6041" 0 t] assms(1) by simp
  with assms show ?thesis
    by (intro sent_since_append)
       (simp add: disable_drive_def and_then_def Let_def split_beta say_tx sleep_tx
          sdo_read_access_tx sdo_write_access_tx split: option.splits)
qed

lemma enable_drive_fault_reset_answered:
  assumes "sdo_read_access e n 0x6041 0x00 t = (Some status, e1)"
    and "status AND 0x4F = 0x08"
    and "sdo_read_access
           (sleep 1 (sdo_write_access (say Issuing_fault_reset e1) n 0x6040 0x00 0x80 t))
           n 0x6041 0x00 t = (Some status', e2)"
  shows "fst (enable_drive e n t) = Inr ()
     \<and> sent_since e (snd (enable_drive e n t)) =
     [read_request n 0x6041 0,
      write_request n 0x6040 0 0x80, read_request n 0x6041 0,
      write_request n 0x6040 0 0x00, read_request n 0x6041 0,
      write_request n 0x6040 0 0x06, read_request n 0x6041 0,
      write_request n 0x6040 0 0x07, read_request n 0x6041 0,
      write_request n 0x6040 0 0x0F, read_request n 0x6041 0]"
proof -
  let ?e4 = "sleep 1 (sdo_write_access (say Issuing_fault_reset e1) n 0x6040 0x00 0x80 t)"
  have t1: "tx e1 = tx e @ [read_request n 0x6041 0]"
    using sdo_read_access_tx [of e n "0x6041" 0 t] assms(1) by simp
  have "tx e2 = tx ?e4 @ [read_request n 0x6041 0]"
    using sdo_read_access_tx [of ?e4 n "0x6041" 0 t] assms(3) by simp
  with t1 have t2: "tx e2 = tx e @ [read_request n 0x6041 0, write_request n 0x6040 0 0x80,
      read_request n 0x6041 0]"
    by (simp add: sleep_tx sdo_write_access_tx say_tx)
  have no: "status AND 0x4F \<noteq> 0x0F"
    using assms(2) by simp
  have r: "fst (enable_drive e n t) = Inr ()"
    using assms no
    by (simp add: enable_drive_def and_then_def Let_def sleep_time_after_transmission_def)
  have "tx (snd (enable_drive e n t)) = tx e @
     [read_request n 0x6041 0,
      write_request n 0x6040 0 0x80, read_request n 0x6041 0,
      write_request n 0x6040 0 0x00, read_request n 0x6041 0,
      write_request n 0x6040 0 0x06, read_request n 0x6041 0,
      write_request n 0x6040 0 0x07, read_request n 0x6041 0,
      write_request n 0x6040 0 0x0F, read_request n 0x6041 0]"
    using assms no t2
    by (simp add: enable_drive_def and_then_def Let_def sleep_time_after_transmission_def
        say_tx issue_commands_tx, simp add: commands_def)
  with r show ?thesis
    by (simp add: sent_since_append)
qed

section \<open>Claims about the motion controller\<close>

text \<open>
  C10. In \<open>move_motor_in_profile_velocity\<close>: when the blocks before it returned and
  the statusword read of line 189 returns \<open>None\<close>, the call goes on with
  \<open>enable_drive\<close> and then the rest of the function, exactly as it does when the read
  returns a status with (status & 0x6F) other than 0x27.
\<close>

theorem unreadable_statusword_enables:
  assumes "move_update_ramps e node_id accel decel timeout_ms = (Inr (), e1)"
    and "move_check_mode e1 node_id timeout_ms = (Inr (), e2)"
    and "sdo_read_access e2 node_id 0x6041 0x00 timeout_ms = (status_word, e3)"
    and "status_word = None \<or> (\<exists>status. status_word = Some status \<and> status AND 0x6F \<noteq> 0x27)"
  shows "move_motor_in_profile_velocity e node_id speed accel decel disable_after_motion
           movement_duration timeout_ms =
         and_then (enable_drive e3 node_id timeout_ms)
           (\<lambda>e4. move_run e4 node_id speed disable_after_motion movement_duration timeout_ms)"
proof -
  from assms(3,4) have "move_check_enabled e2 node_id timeout_ms = enable_drive e3 node_id timeout_ms"
    by (auto simp: move_check_enabled_def)
  with assms(1,2) show ?thesis
    by (simp add: move_motor_in_profile_velocity_def and_then_def)
qed

theorem unreadable_statusword_enables_witness:
  "fst (sdo_read_access
          (snd (move_check_mode (snd (move_update_ramps unanswered_status_bus 127 1000 1000 1000))
                  127 1000))
          127 0x6041 0x00 1000) = None
   \<and> sent_since unanswered_status_bus
       (snd (move_motor_in_profile_velocity unanswered_status_bus 127 800 1000 1000 False 0 1000)) =
     [read_request 127 0x6083 0, read_request 127 0x6084 0, read_request 127 0x6061 0,
      read_request 127 0x6041 0,
      read_request 127 0x6041 0,
      write_request 127 0x6040 0 0x00, read_request 127 0x6041 0,
      write_request 127 0x6040 0 0x06, read_request 127 0x6041 0,
      write_request 127 0x6040 0 0x07, read_request 127 0x6041 0,
      write_request 127 0x6040 0 0x0F, read_request 127 0x6041 0,
      write_request 127 0x60FF 0 800]"
proof -
  define e1 where "e1 = snd (move_update_ramps unanswered_status_bus 127 1000 1000 1000)"
  define e2 where "e2 = snd (move_check_mode e1 127 1000)"
  define e3 where "e3 = snd (sdo_read_access e2 127 0x6041 0x00 1000)"
  have a: "move_update_ramps unanswered_status_bus 127 1000 1000 1000 = (Inr (), e1)"
    unfolding e1_def by (simp add: unanswered_status_bus_def run_defs move_defs)
  have b: "move_check_mode e1 127 1000 = (Inr (), e2)"
    unfolding e2_def e1_def by (simp add: unanswered_status_bus_def run_defs move_defs)
  have c: "sdo_read_access e2 127 0x6041 0x00 1000 = (None, e3)"
    unfolding e3_def e2_def e1_def by (simp add: unanswered_status_bus_def run_defs move_defs)
  have d: "(None :: int option) = None \<or> (\<exists>status. None = Some status \<and> status AND 0x6F \<noteq> 0x27)"
    by simp
  have m: "move_motor_in_profile_velocity unanswered_status_bus 127 800 1000 1000 False 0 1000 =
      and_then (enable_drive e3 127 1000) (\<lambda>e4. move_run e4 127 800 False 0 1000)"
    by (rule unreadable_statusword_enables [OF a b c d])
  have "sent_since unanswered_status_bus
      (snd (and_then (enable_drive e3 127 1000) (\<lambda>e4. move_run e4 127 800 False 0 1000))) =
     [read_request 127 0x6083 0, read_request 127 0x6084 0, read_request 127 0x6061 0,
      read_request 127 0x6041 0,
      read_request 127 0x6041 0,
      write_request 127 0x6040 0 0x00, read_request 127 0x6041 0,
      write_request 127 0x6040 0 0x06, read_request 127 0x6041 0,
      write_request 127 0x6040 0 0x07, read_request 127 0x6041 0,
      write_request 127 0x6040 0 0x0F, read_request 127 0x6041 0,
      write_request 127 0x60FF 0 800]"
    unfolding e3_def e2_def e1_def by (simp add: unanswered_status_bus_def run_defs move_defs)
  then have sent: "sent_since unanswered_status_bus
      (snd (move_motor_in_profile_velocity unanswered_status_bus 127 800 1000 1000 False 0 1000)) =
     [read_request 127 0x6083 0, read_request 127 0x6084 0, read_request 127 0x6061 0,
      read_request 127 0x6041 0,
      read_request 127 0x6041 0,
      write_request 127 0x6040 0 0x00, read_request 127 0x6041 0,
      write_request 127 0x6040 0 0x06, read_request 127 0x6041 0,
      write_request 127 0x6040 0 0x07, read_request 127 0x6041 0,
      write_request 127 0x6040 0 0x0F, read_request 127 0x6041 0,
      write_request 127 0x60FF 0 800]"
    by (simp only: m)
  from c have "fst (sdo_read_access e2 127 0x6041 0x00 1000) = None"
    by simp
  then have "fst (sdo_read_access
          (snd (move_check_mode (snd (move_update_ramps unanswered_status_bus 127 1000 1000 1000))
                  127 1000))
          127 0x6041 0x00 1000) = None"
    by (simp only: e2_def e1_def)
  with sent show ?thesis
    by (intro conjI)
qed

text \<open>Only a status that was read and has (status & 0x6F) = 0x27 skips the enable sequence.\<close>

lemma readable_enabled_statusword_skips_enable:
  assumes "move_update_ramps e node_id accel decel timeout_ms = (Inr (), e1)"
    and "move_check_mode e1 node_id timeout_ms = (Inr (), e2)"
    and "sdo_read_access e2 node_id 0x6041 0x00 timeout_ms = (Some status, e3)"
    and "status AND 0x6F = 0x27"
  shows "move_motor_in_profile_velocity e node_id speed accel decel disable_after_motion
           movement_duration timeout_ms =
         move_run e3 node_id speed disable_after_motion movement_duration timeout_ms"
proof -
  from assms(3,4) have "move_check_enabled e2 node_id timeout_ms = (Inr (), e3)"
    by (simp add: move_check_enabled_def)
  with assms(1,2) show ?thesis
    by (simp add: move_motor_in_profile_velocity_def and_then_def)
qed

text \<open>
  C3. When the reads of 0x6083, 0x6084 and 0x6061 at the start of
  \<open>move_motor_in_profile_velocity\<close> return the acceleration and the deceleration of
  the call and mode 3, none of the frames the call sends is a write to 0x6083, 0x6084
  or 0x6060, whatever the rest of the call does.
\<close>

theorem move_profile_velocity_idempotent:
  assumes "sdo_read_access e node_id 0x6083 0x00 timeout_ms = (Some accel, e1)"
    and "sdo_read_access e1 node_id 0x6084 0x00 timeout_ms = (Some decel, e2)"
    and "sdo_read_access e2 node_id 0x6061 0x00 timeout_ms = (Some 3, e3)"
  shows "filter config_write
           (sent_since e
              (snd (move_motor_in_profile_velocity e node_id speed accel decel
                      disable_after_motion movement_duration timeout_ms))) = []"
proof -
  have q1: "quiet e e1"
    using quiet_read [OF quiet_refl, of e node_id "0x6083" 0 timeout_ms] assms(1) by simp
  have q2: "quiet e e2"
    using quiet_read [OF q1, of node_id "0x6084" 0 timeout_ms] assms(2) by simp
  have q3: "quiet e e3"
    using quiet_read [OF q2, of node_id "0x6061" 0 timeout_ms] assms(3) by simp
  have ramps: "move_update_ramps e node_id accel decel timeout_ms = (Inr (), e2)"
    using assms(1,2) by (simp add: move_update_ramps_def)
  have mode: "move_check_mode e2 node_id timeout_ms = (Inr (), e3)"
    using assms(3) by (simp add: move_check_mode_def)
  let ?r = "move_check_enabled e3 node_id timeout_ms"
  have q4: "quiet e (snd ?r)"
    by (rule quiet_check_enabled [OF q3])
  have "quiet e (snd (move_motor_in_profile_velocity e node_id speed accel decel
                      disable_after_motion movement_duration timeout_ms))"
  proof (cases ?r)
    case (Pair res e4)
    with q4 have q4': "quiet e e4" by simp
    show ?thesis
    proof (cases res)
      case (Inl err)
      with Pair ramps mode q4' show ?thesis
        by (simp add: move_motor_in_profile_velocity_def and_then_def)
    next
      case (Inr u)
      with Pair ramps mode quiet_run [OF q4'] show ?thesis
        by (simp add: move_motor_in_profile_velocity_def and_then_def)
    qed
  qed
  then show ?thesis by (rule sent_since_quiet)
qed

theorem move_profile_velocity_idempotent_witness:
  "fst (sdo_read_access second_call_bus 127 0x6083 0x00 1000) = Some 1000
   \<and> filter config_write
       (sent_since second_call_bus
          (snd (move_motor_in_profile_velocity second_call_bus 127 800 1000 1000 True 15 1000)))
     = []"
proof -
  define e1 where "e1 = snd (sdo_read_access second_call_bus 127 0x6083 0x00 1000)"
  define e2 where "e2 = snd (sdo_read_access e1 127 0x6084 0x00 1000)"
  define e3 where "e3 = snd (sdo_read_access e2 127 0x6061 0x00 1000)"
  have a: "sdo_read_access second_call_bus 127 0x6083 0x00 1000 = (Some 1000, e1)"
    unfolding e1_def by (simp add: second_call_bus_def run_defs)
  have b: "sdo_read_access e1 127 0x6084 0x00 1000 = (Some 1000, e2)"
    unfolding e2_def e1_def by (simp add: second_call_bus_def run_defs)
  have c: "sdo_read_access e2 127 0x6061 0x00 1000 = (Some 3, e3)"
    unfolding e3_def e2_def e1_def by (simp add: second_call_bus_def run_defs)
  from move_profile_velocity_idempotent [OF a b c] a show ?thesis
    by simp
qed

lemma move_profile_velocity_second_call_example:
  "sent_since second_call_bus
     (snd (move_motor_in_profile_velocity second_call_bus 127 800 1000 1000 False 0 1000)) =
   [read_request 127 0x6083 0, read_request 127 0x6084 0, read_request 127 0x6061 0,
    read_request 127 0x6041 0, write_request 127 0x60FF 0 800]"
  by (simp add: second_call_bus_def run_defs move_motor_in_profile_velocity_def
      move_update_ramps_def move_check_mode_def move_check_enabled_def move_run_def)


end
